theory Spec2Isabelle
  imports Complex_Main
begin

section \<open>Gauss-Newton solvers of optimistix: \<open>_solver/gauss_newton.py\<close>\<close>

text \<open>
  The embedding follows \<open>src/optimistix/_solver/gauss_newton.py\<close>. A PyTree of arrays
  (\<open>Y\<close>, \<open>Out\<close>) is the list of its scalar leaves, and the \<open>\<omega>\<close> arithmetic is elementwise
  on that list. The scalars are any type \<open>'a\<close> that has the operations a function uses
  (\<open>NewtonDescent.__call__\<close> needs negation, product and quotient only), so the same
  definition runs on exact numbers and on the IEEE 754 doubles of the array runtime,
  which are defined below. The dtype of an array is not part of the model.
\<close>

subsection \<open>Raised exceptions and status codes\<close>

text \<open>
  A Python \<open>raise\<close> is a value \<open>Inl e\<close> of the result type \<open>error + _\<close>; a status code
  of \<open>RESULTS\<close> is ordinary data on the \<open>Inr\<close> side.
\<close>

datatype error =
    KeyError string
  | ValueError string
  | AttributeError string
  | TypeError string

text \<open>
  Modelled from the spec: \<open>lineax.RESULTS\<close>, the status of a linear solve (the source
  only reads \<open>out.result\<close>): success, or a linear-solve failure of one of several
  subkinds, numbered here.
\<close>

datatype linear_RESULTS = linear_successful | linear_failure nat

text \<open>
  Modelled from the spec: \<open>RESULTS\<close> of \<open>_solution.py\<close> (the source only imports it):
  ``\<open>successful\<close>, or one of a fixed set of failure kinds (nonlinear step budget
  exhausted, linear solve failure of various subkinds, line-search failure)''.
\<close>

datatype RESULTS =
    successful
  | nonlinear_max_steps_reached
  | linear_solve_failure nat
  | line_search_failure

text \<open>
  Modelled from the spec: \<open>RESULTS.where\<close>, ``conditional selection between two
  statuses''.
\<close>

definition RESULTS_where :: "bool \<Rightarrow> RESULTS \<Rightarrow> RESULTS \<Rightarrow> RESULTS" where
  "RESULTS_where pred a b = (if pred then a else b)"

text \<open>
  Modelled from the spec: \<open>RESULTS.promote\<close> with one argument, which carries the status
  of the linear solve into the solver's own enumeration.
\<close>

fun RESULTS_promote :: "linear_RESULTS \<Rightarrow> RESULTS" where
  "RESULTS_promote linear_successful = successful"
| "RESULTS_promote (linear_failure k) = linear_solve_failure k"

subsection \<open>Linear operators and linear solvers (lineax)\<close>

text \<open>
  \<open>lx.FunctionLinearOperator(lin_fn, in_structure)\<close>: a matrix-free operator, applied
  with \<open>mv\<close>. The input structure of a flat list of leaves is its length.
\<close>

datatype 'a linear_operator =
  FunctionLinearOperator (op_fn: "'a list \<Rightarrow> 'a list") (in_structure: nat)

definition mv :: "'a linear_operator \<Rightarrow> 'a list \<Rightarrow> 'a list" where
  "mv operator v = op_fn operator v"

text \<open>
  A linear-solver strategy: \<open>lx.AutoLinearSolver(well_posed=...)\<close>, or any other
  strategy \<open>'ls\<close> of the caller. What \<open>lx.linear_solve\<close> computes with it is a parameter
  \<open>linear_solve\<close> of the functions below, of type
  \<open>operator \<Rightarrow> vector \<Rightarrow> solver \<Rightarrow> value \<times> status\<close>.
\<close>

datatype 'ls linear_solver = AutoLinearSolver "bool option" | OtherLinearSolver 'ls

subsection \<open>\<open>NewtonDescent\<close>\<close>

text \<open>
  The two fields of the class, with their defaults \<open>norm = None\<close> and
  \<open>linear_solver = lx.AutoLinearSolver(well_posed=None)\<close>.
\<close>

record ('a, 'ls) NewtonDescent =
  nd_norm :: "('a list \<Rightarrow> 'a) option"
  nd_linear_solver :: "'ls linear_solver"

definition NewtonDescent_init ::
  "('a list \<Rightarrow> 'a) option \<Rightarrow> 'ls linear_solver option \<Rightarrow> ('a, 'ls) NewtonDescent" where
  "NewtonDescent_init norm_arg linear_solver_arg =
     \<lparr> nd_norm = norm_arg,
       nd_linear_solver =
         (case linear_solver_arg of None \<Rightarrow> AutoLinearSolver None | Some s \<Rightarrow> s) \<rparr>"

text \<open>
  The values an \<open>options: dict[str, Any]\<close> holds in this file: \<open>None\<close>, a scalar, an
  array (PyTree), a linear operator, an auxiliary value, a flag, a descent.
\<close>

datatype ('a, 'aux, 'ls) optval =
    NoneV
  | Scalar 'a
  | Array "'a list"
  | Operator "'a linear_operator"
  | AuxV 'aux
  | BoolV bool
  | DescentV "('a, 'ls) NewtonDescent"

type_synonym ('a, 'aux, 'ls) options = "string \<rightharpoonup> ('a, 'aux, 'ls) optval"

text \<open>
  \<open>NewtonDescent.__call__\<close>. \<open>options["vector"]\<close> raises \<open>KeyError\<close> when the key is
  missing; the two \<open>try\<close> blocks turn a missing \<open>operator_inv\<close> or \<open>operator\<close> into
  \<open>None\<close>. A value that is not \<open>None\<close> and is not of the type the call needs (an
  \<open>operator_inv\<close> without \<open>mv\<close>, a vector that is no array) raises as well.
\<close>

definition NewtonDescent_call ::
  "('a linear_operator \<Rightarrow> 'a list \<Rightarrow> 'ls linear_solver \<Rightarrow> 'a list \<times> linear_RESULTS) \<Rightarrow>
   ('a::{uminus,times,inverse}, 'ls) NewtonDescent \<Rightarrow> 'a \<Rightarrow> 'args \<Rightarrow>
   ('a, 'aux, 'ls) options \<Rightarrow>
   error + ('a list \<times> RESULTS)" where
  "NewtonDescent_call linear_solve self stepsize args options =
     (case options ''vector'' of
        None \<Rightarrow> Inl (KeyError ''vector'')
      | Some vector \<Rightarrow>
          let operator_inv = (case options ''operator_inv'' of None \<Rightarrow> NoneV | Some v \<Rightarrow> v);
              operator = (case options ''operator'' of None \<Rightarrow> NoneV | Some v \<Rightarrow> v);
              solved =
                (if operator_inv \<noteq> NoneV then
                   (case operator_inv of
                      Operator Ainv \<Rightarrow>
                        (case vector of
                           Array v \<Rightarrow> Inr (mv Ainv v, successful)
                         | _ \<Rightarrow> Inl (TypeError ''vector''))
                    | _ \<Rightarrow> Inl (AttributeError ''mv''))
                 else if operator \<noteq> NoneV then
                   (case operator of
                      Operator A \<Rightarrow>
                        (case vector of
                           Array v \<Rightarrow>
                             let out = linear_solve A v (nd_linear_solver self)
                             in Inr (fst out, RESULTS_promote (snd out))
                         | _ \<Rightarrow> Inl (TypeError ''vector''))
                    | _ \<Rightarrow> Inl (TypeError ''operator''))
                 else
                   Inl (ValueError
                     ''At least one of `operator` or `operator_inv` must be passed to `NewtonDescent` via `options`.''))
          in (case solved of
                Inl e \<Rightarrow> Inl e
              | Inr (newton, result) \<Rightarrow>
                  let diff = (case nd_norm self of
                                None \<Rightarrow> newton
                              | Some n \<Rightarrow> map (\<lambda>x. x / n newton) newton)
                  in Inr (map (\<lambda>x. - stepsize * x) diff, result)))"

subsection \<open>Collaborators of the solver\<close>

text \<open>
  Modelled from the spec: \<open>sum_squares\<close> of \<open>_misc.py\<close> (the source only imports it),
  the sum of the squared residuals.
\<close>

definition sum_squares :: "'a::semiring_0 list \<Rightarrow> 'a" where
  "sum_squares xs = sum_list (map (\<lambda>x. x * x) xs)"

text \<open>
  Modelled from the spec: \<open>tree_full_like\<close> of \<open>_misc.py\<close> (the source only imports it),
  the value of the same shape as its first argument with every leaf equal to the second.
\<close>

definition tree_full_like :: "'a list \<Rightarrow> 'a \<Rightarrow> 'a list" where
  "tree_full_like tree fill = map (\<lambda>_. fill) tree"

text \<open>
  Modelled from the spec: \<open>max_norm\<close> of \<open>_misc.py\<close> (the source only imports it), the
  maximum-absolute-value norm.
\<close>

definition max_norm :: "'a::linordered_idom list \<Rightarrow> 'a" where
  "max_norm xs = foldr (\<lambda>x m. max \<bar>x\<bar> m) xs 0"

text \<open>
  The \<open>\<omega>\<close> arithmetic on two PyTrees, \<open>(a**\<omega> - b**\<omega>).\<omega>\<close> and \<open>(a**\<omega> + b**\<omega>).\<omega>\<close>: leaf by
  leaf, and an exception when the two trees do not have the same structure.
\<close>

definition omega_sub :: "'a::minus list \<Rightarrow> 'a list \<Rightarrow> error + 'a list" where
  "omega_sub a b =
     (if length a = length b then Inr (map2 (\<lambda>x y. x - y) a b)
      else Inl (ValueError ''tree structure mismatch''))"

definition omega_add :: "'a::plus list \<Rightarrow> 'a list \<Rightarrow> error + 'a list" where
  "omega_add a b =
     (if length a = length b then Inr (map2 (\<lambda>x y. x + y) a b)
      else Inl (ValueError ''tree structure mismatch''))"

text \<open>
  Modelled from the spec: \<open>jax.linearize(f, y, has_aux=True)\<close>,
  ``\<open>linearize(fn_closed_over_args, y) -> (value, linear_map, aux)\<close>'': the value and the
  auxiliary output are those of \<open>f\<close> at \<open>y\<close>; the linear map is the derivative that jax
  computes, a parameter \<open>jvp\<close> here.
\<close>

definition linearize ::
  "(('a list \<Rightarrow> 'a list \<times> 'aux) \<Rightarrow> 'a list \<Rightarrow> 'a list \<Rightarrow> 'a list) \<Rightarrow>
   ('a list \<Rightarrow> 'a list \<times> 'aux) \<Rightarrow> 'a list \<Rightarrow> 'a list \<times> ('a list \<Rightarrow> 'a list) \<times> 'aux" where
  "linearize jvp f y = (let (out, aux) = f y in (out, jvp f y, aux))"

text \<open>
  The result of \<open>line_search\<close>, as far as \<open>step\<close> reads it: \<open>line_sol.value\<close>,
  \<open>line_sol.result\<close>, \<open>line_sol.state.next_init\<close>, and the auxiliary output that
  \<open>has_aux=True\<close> asks for. The function \<open>line_search\<close> of \<open>_line_search.py\<close> itself is a
  parameter of \<open>step\<close>: it may raise (\<open>Inl\<close>), and with \<open>throw=False\<close> it reports its own
  failures in \<open>sol_result\<close>.
\<close>

record 'a line_search_state =
  next_init :: 'a

record ('a, 'aux) Solution =
  sol_value :: "'a list"
  sol_result :: RESULTS
  sol_aux :: 'aux
  sol_state :: "'a line_search_state"

text \<open>\<open>LearningRate(learning_rate)\<close> of \<open>learning_rate.py\<close>, as a value.\<close>

datatype 'a LearningRate = LearningRate 'a

subsection \<open>\<open>_GaussNewtonState\<close>, \<open>_line_search_fn\<close>, \<open>AbstractGaussNewton\<close>\<close>

record 'a GaussNewtonState =
  step_size :: 'a
  diff :: "'a list"
  f_val :: 'a
  f_prev :: 'a
  result :: RESULTS

definition line_search_fn ::
  "('a list \<Rightarrow> 'args \<Rightarrow> 'a::semiring_0 list \<times> 'aux) \<Rightarrow> 'a list \<Rightarrow> 'args \<Rightarrow> 'a \<times> 'aux" where
  "line_search_fn fn y args = (let (residual, aux) = fn y args in (sum_squares residual, aux))"

text \<open>
  The fields of a solver: \<open>rtol\<close>, \<open>atol\<close>, \<open>norm\<close>, \<open>descent\<close>, \<open>line_search\<close>. The only
  descent of this file is \<open>NewtonDescent\<close>; the line-search strategy is any type.
\<close>

record ('a, 'ls, 'search) GaussNewton =
  gn_rtol :: 'a
  gn_atol :: 'a
  gn_norm :: "'a list \<Rightarrow> 'a"
  gn_descent :: "('a, 'ls) NewtonDescent"
  gn_line_search :: 'search

text \<open>
  \<open>AbstractGaussNewton.init\<close>. \<open>jnp.inf\<close> is the parameter \<open>jnp_inf\<close>; \<open>f_struct\<close> is
  read for the dtype of \<open>f_val\<close> only, which the model does not have.
\<close>

definition init ::
  "'a::one \<Rightarrow> ('a, 'ls, 'search) GaussNewton \<Rightarrow> ('a list \<Rightarrow> 'args \<Rightarrow> 'a list \<times> 'aux) \<Rightarrow>
   'a list \<Rightarrow> 'args \<Rightarrow> ('a, 'aux, 'ls) options \<Rightarrow> 'fs \<Rightarrow> 'as \<Rightarrow> 'tag set \<Rightarrow>
   'a GaussNewtonState" where
  "init jnp_inf self fn y args options f_struct aux_struct tags =
     \<lparr> step_size = 1,
       diff = tree_full_like y jnp_inf,
       f_val = jnp_inf,
       f_prev = jnp_inf,
       result = successful \<rparr>"

text \<open>The dictionary \<open>line_search_options\<close> that \<open>step\<close> assembles.\<close>

definition line_search_options ::
  "'a GaussNewtonState \<Rightarrow> 'a list \<Rightarrow> 'a linear_operator \<Rightarrow> 'a \<Rightarrow> 'aux \<Rightarrow>
   ('a, 'ls) NewtonDescent \<Rightarrow> ('a, 'aux, 'ls) options" where
  "line_search_options state residual new_operator fval aux descent =
     [''init_step_size'' \<mapsto> Scalar (step_size state),
      ''vector'' \<mapsto> Array residual,
      ''operator'' \<mapsto> Operator new_operator,
      ''operator_inv'' \<mapsto> NoneV,
      ''f0'' \<mapsto> Scalar fval,
      ''aux'' \<mapsto> AuxV aux,
      ''gauss_newton'' \<mapsto> BoolV True,
      ''descent'' \<mapsto> DescentV descent]"

text \<open>
  \<open>AbstractGaussNewton.step\<close>. The two Boolean arguments of \<open>line_search\<close> are
  \<open>has_aux=True\<close> and \<open>throw=False\<close>.
\<close>

definition step ::
  "(('a list \<Rightarrow> 'a list \<times> 'aux) \<Rightarrow> 'a list \<Rightarrow> 'a list \<Rightarrow> 'a list) \<Rightarrow>
   (('a list \<Rightarrow> 'args \<Rightarrow> 'a \<times> 'aux) \<Rightarrow> 'search \<Rightarrow> 'a list \<Rightarrow> 'args \<Rightarrow>
      ('a, 'aux, 'ls) options \<Rightarrow> bool \<Rightarrow> bool \<Rightarrow> error + ('a, 'aux) Solution) \<Rightarrow>
   ('a::ring, 'ls, 'search) GaussNewton \<Rightarrow> ('a list \<Rightarrow> 'args \<Rightarrow> 'a list \<times> 'aux) \<Rightarrow>
   'a list \<Rightarrow> 'args \<Rightarrow> ('a, 'aux, 'ls) options \<Rightarrow> 'a GaussNewtonState \<Rightarrow> 'tag set \<Rightarrow>
   error + ('a list \<times> 'a GaussNewtonState \<times> 'aux)" where
  "step jvp line_search self fn y args options state tags =
     (let (residual, lin_fn, aux) = linearize jvp (\<lambda>y'. fn y' args) y;
          in_struct = length y;
          new_operator = FunctionLinearOperator lin_fn in_struct;
          fval = sum_squares residual;
          ls_options = line_search_options state residual new_operator fval aux (gn_descent self)
      in case line_search (line_search_fn fn) (gn_line_search self) y args ls_options True False of
           Inl e \<Rightarrow> Inl e
         | Inr line_sol \<Rightarrow>
             let new_y = sol_value line_sol;
                 res = RESULTS_where (sol_result line_sol = nonlinear_max_steps_reached)
                         successful (sol_result line_sol)
             in (case omega_sub new_y y of
                   Inl e \<Rightarrow> Inl e
                 | Inr d \<Rightarrow>
                     Inr (new_y,
                          \<lparr> step_size = next_init (sol_state line_sol),
                            diff = d,
                            f_val = fval,
                            f_prev = f_val state,
                            result = res \<rparr>,
                          aux)))"

subsection \<open>\<open>GaussNewton\<close>\<close>

text \<open>
  \<open>GaussNewton.__init__(rtol, atol, norm=max_norm,
  linear_solver=lx.AutoLinearSolver(well_posed=None))\<close>: an argument that the caller
  leaves out is \<open>None\<close> here and takes its default.
\<close>

definition GaussNewton_init ::
  "'a \<Rightarrow> 'a \<Rightarrow> ('a list \<Rightarrow> 'a) option \<Rightarrow> 'ls linear_solver option \<Rightarrow>
   ('a::linordered_field, 'ls, 'a LearningRate) GaussNewton" where
  "GaussNewton_init rtol atol norm_arg linear_solver_arg =
     (let norm_fn = (case norm_arg of None \<Rightarrow> max_norm | Some n \<Rightarrow> n);
          linear_solver =
            (case linear_solver_arg of None \<Rightarrow> AutoLinearSolver None | Some s \<Rightarrow> s)
      in \<lparr> gn_rtol = rtol,
           gn_atol = atol,
           gn_norm = norm_fn,
           gn_descent = NewtonDescent_init None (Some linear_solver),
           gn_line_search = LearningRate 1 \<rparr>)"

subsection \<open>A fixed-step line search and a scalar problem\<close>

text \<open>
  Modelled from the spec: \<open>line_search\<close> of \<open>_line_search.py\<close> run with a
  \<open>LearningRate\<close> (the source only imports both): ``a fixed-step-size line search (every
  Newton step is accepted at full length with no backtracking/expansion)'', whose result
  ``carries \<open>.value\<close> (new \<open>y\<close>), \<open>.result\<close> (status), \<open>.state.next_init\<close> (recommended
  next step size), and the auxiliary output from the accepted evaluation point''. The
  descent is the entry \<open>descent\<close> of the options, called once with the learning rate.
\<close>

definition line_search_LearningRate ::
  "('a linear_operator \<Rightarrow> 'a list \<Rightarrow> 'ls linear_solver \<Rightarrow> 'a list \<times> linear_RESULTS) \<Rightarrow>
   ('a list \<Rightarrow> 'args \<Rightarrow> 'a \<times> 'aux) \<Rightarrow> 'a LearningRate \<Rightarrow>
   'a::{uminus,times,inverse,plus} list \<Rightarrow> 'args \<Rightarrow>
   ('a, 'aux, 'ls) options \<Rightarrow> bool \<Rightarrow> bool \<Rightarrow> error + ('a, 'aux) Solution" where
  "line_search_LearningRate linear_solve f solver y args options has_aux throw =
     (case solver of LearningRate learning_rate \<Rightarrow>
        (case options ''descent'' of
           Some (DescentV descent) \<Rightarrow>
             (case NewtonDescent_call linear_solve descent learning_rate args options of
                Inl e \<Rightarrow> Inl e
              | Inr (dy, res) \<Rightarrow>
                  (case omega_add y dy of
                     Inl e \<Rightarrow> Inl e
                   | Inr new_y \<Rightarrow>
                       Inr \<lparr> sol_value = new_y,
                             sol_result = res,
                             sol_aux = snd (f new_y args),
                             sol_state = \<lparr> next_init = learning_rate \<rparr> \<rparr>))
         | _ \<Rightarrow> Inl (KeyError ''descent'')))"

text \<open>
  A scalar least-squares problem to run the solver on: the residual \<open>y - 3\<close>, with the
  point \<open>y\<close> itself as auxiliary output; its derivative, the identity; and a linear solve
  for operators that are a multiple of the identity.
\<close>

definition shift_fn :: "real list \<Rightarrow> unit \<Rightarrow> real list \<times> real list" where
  "shift_fn y args = (map (\<lambda>x. x - 3) y, y)"

definition shift_jvp :: "(real list \<Rightarrow> real list \<times> real list) \<Rightarrow> real list \<Rightarrow> real list \<Rightarrow> real list" where
  "shift_jvp f y = (\<lambda>t. t)"

definition diag_solve ::
  "real linear_operator \<Rightarrow> real list \<Rightarrow> unit linear_solver \<Rightarrow> real list \<times> linear_RESULTS" where
  "diag_solve A v solver =
     (case mv A [1] of
        [] \<Rightarrow> (v, linear_failure 0)
      | c # _ \<Rightarrow>
          if c = 0 then (v, linear_failure 0) else (map (\<lambda>x. x / c) v, linear_successful))"

definition state0 :: "real GaussNewtonState" where
  "state0 = \<lparr> step_size = 1, diff = [0], f_val = 16, f_prev = 25, result = successful \<rparr>"

text \<open>The solver \<open>GaussNewton(rtol=1e-6, atol=1e-6)\<close>.\<close>

definition gn_example :: "(real, unit, real LearningRate) GaussNewton" where
  "gn_example = GaussNewton_init (1 / 1000000) (1 / 1000000) None None"

text \<open>
  A line search that uses up its step budget without moving: it reports
  \<open>nonlinear_max_steps_reached\<close> at the point it was given.
\<close>

definition exhausted_search ::
  "(real list \<Rightarrow> unit \<Rightarrow> real \<times> real list) \<Rightarrow> real LearningRate \<Rightarrow> real list \<Rightarrow> unit \<Rightarrow>
   (real, real list, unit) options \<Rightarrow> bool \<Rightarrow> bool \<Rightarrow> error + (real, real list) Solution" where
  "exhausted_search f solver y args options has_aux throw =
     Inr \<lparr> sol_value = y, sol_result = nonlinear_max_steps_reached, sol_aux = snd (f y args),
           sol_state = \<lparr> next_init = 1 / 2 \<rparr> \<rparr>"

subsection \<open>The doubles of the array runtime\<close>

text \<open>
  The arrays of a solve hold IEEE 754 binary64 numbers when the runtime runs in double
  precision. A double is a real number with a 53-bit significand, an infinity or a NaN;
  the sign of a zero is not kept. Every operation returns the exact result rounded to
  the nearest double, ties to the even significand, and an infinity past the largest
  double.
\<close>

datatype double = Finite real | PosInf | NegInf | NaN

definition round_even :: "real \<Rightarrow> int" where
  "round_even m =
     (let f = \<lfloor>m\<rfloor>
      in if m - of_int f < 1 / 2 then f
         else if 1 / 2 < m - of_int f then f + 1
         else if even f then f else f + 1)"

definition round64 :: "real \<Rightarrow> double" where
  "round64 x =
     (if x = 0 then Finite 0
      else
        let e = max \<lfloor>log 2 \<bar>x\<bar>\<rfloor> (- 1022);
            u = 2 powr (of_int (e - 52));
            r = of_int (round_even (x / u)) * u
        in if 2 ^ 1024 \<le> \<bar>r\<bar> then (if 0 < x then PosInf else NegInf) else Finite r)"

definition signed_inf :: "real \<Rightarrow> double" where
  "signed_inf s = (if s = 0 then NaN else if 0 < s then PosInf else NegInf)"

fun double_uminus :: "double \<Rightarrow> double" where
  "double_uminus (Finite a) = Finite (- a)"
| "double_uminus PosInf = NegInf"
| "double_uminus NegInf = PosInf"
| "double_uminus NaN = NaN"

fun double_times :: "double \<Rightarrow> double \<Rightarrow> double" where
  "double_times (Finite a) (Finite b) = round64 (a * b)"
| "double_times (Finite a) PosInf = signed_inf a"
| "double_times (Finite a) NegInf = signed_inf (- a)"
| "double_times PosInf (Finite b) = signed_inf b"
| "double_times NegInf (Finite b) = signed_inf (- b)"
| "double_times PosInf PosInf = PosInf"
| "double_times PosInf NegInf = NegInf"
| "double_times NegInf PosInf = NegInf"
| "double_times NegInf NegInf = PosInf"
| "double_times NaN _ = NaN"
| "double_times _ NaN = NaN"

fun double_divide :: "double \<Rightarrow> double \<Rightarrow> double" where
  "double_divide (Finite a) (Finite b) = (if b = 0 then signed_inf a else round64 (a / b))"
| "double_divide (Finite a) PosInf = Finite 0"
| "double_divide (Finite a) NegInf = Finite 0"
| "double_divide PosInf (Finite b) = (if b < 0 then NegInf else PosInf)"
| "double_divide NegInf (Finite b) = (if b < 0 then PosInf else NegInf)"
| "double_divide PosInf PosInf = NaN"
| "double_divide PosInf NegInf = NaN"
| "double_divide NegInf PosInf = NaN"
| "double_divide NegInf NegInf = NaN"
| "double_divide NaN _ = NaN"
| "double_divide _ NaN = NaN"



instantiation double :: "{uminus,times,inverse}"
begin

definition uminus_double :: "double \<Rightarrow> double" where
  "uminus_double = double_uminus"

definition times_double :: "double \<Rightarrow> double \<Rightarrow> double" where
  "times_double = double_times"

definition divide_double :: "double \<Rightarrow> double \<Rightarrow> double" where
  "divide_double = double_divide"

definition inverse_double :: "double \<Rightarrow> double" where
  "inverse_double x = double_divide (Finite 1) x"

instance ..

end


subsection \<open>Notions used in the statements\<close>

text \<open>
  The options with which \<open>step\<close> calls the line search, as a function of the arguments
  of \<open>step\<close> (lemma \<open>step_unfold\<close> below).
\<close>

definition step_options ::
  "(('a list \<Rightarrow> 'a list \<times> 'aux) \<Rightarrow> 'a list \<Rightarrow> 'a list \<Rightarrow> 'a list) \<Rightarrow>
   ('a::ring, 'ls, 'search) GaussNewton \<Rightarrow> ('a list \<Rightarrow> 'args \<Rightarrow> 'a list \<times> 'aux) \<Rightarrow>
   'a list \<Rightarrow> 'args \<Rightarrow> 'a GaussNewtonState \<Rightarrow> ('a, 'aux, 'ls) options" where
  "step_options jvp self fn y args state =
     line_search_options state (fst (fn y args))
       (FunctionLinearOperator (jvp (\<lambda>y'. fn y' args) y) (length y))
       (sum_squares (fst (fn y args))) (snd (fn y args)) (gn_descent self)"


section \<open>Properties\<close>

subsection \<open>Auxiliary lemmas\<close>

lemma step_unfold:
  "step jvp line_search self fn y args options state tags =
     (case line_search (line_search_fn fn) (gn_line_search self) y args
             (step_options jvp self fn y args state) True False of
        Inl e \<Rightarrow> Inl e
      | Inr line_sol \<Rightarrow>
          (case omega_sub (sol_value line_sol) y of
             Inl e \<Rightarrow> Inl e
           | Inr d \<Rightarrow>
               Inr (sol_value line_sol,
                    \<lparr> step_size = next_init (sol_state line_sol),
                      diff = d,
                      f_val = sum_squares (fst (fn y args)),
                      f_prev = f_val state,
                      result = RESULTS_where (sol_result line_sol = nonlinear_max_steps_reached)
                                 successful (sol_result line_sol) \<rparr>,
                    snd (fn y args))))"
  by (cases "fn y args")
    (simp add: step_def step_options_def linearize_def Let_def split: sum.splits)

lemma step_accepts:
  assumes "line_search (line_search_fn fn) (gn_line_search self) y args
             (step_options jvp self fn y args state) True False = Inr line_sol"
    and "length (sol_value line_sol) = length y"
  shows "step jvp line_search self fn y args options state tags =
           Inr (sol_value line_sol,
                \<lparr> step_size = next_init (sol_state line_sol),
                  diff = map2 (\<lambda>a b. a - b) (sol_value line_sol) y,
                  f_val = sum_squares (fst (fn y args)),
                  f_prev = f_val state,
                  result = (if sol_result line_sol = nonlinear_max_steps_reached
                            then successful else sol_result line_sol) \<rparr>,
                snd (fn y args))"
  using assms by (simp add: step_unfold omega_sub_def RESULTS_where_def)

lemma step_returns:
  assumes "step jvp line_search self fn y args options state tags = Inr (new_y, new_state, aux)"
  shows "\<exists>line_sol. line_search (line_search_fn fn) (gn_line_search self) y args
             (step_options jvp self fn y args state) True False = Inr line_sol
           \<and> length (sol_value line_sol) = length y \<and> new_y = sol_value line_sol
           \<and> aux = snd (fn y args)"
  using assms by (auto simp add: step_unfold omega_sub_def split: sum.splits if_splits)







lemmas example_defs =
  step_def linearize_def shift_fn_def shift_jvp_def line_search_options_def
  line_search_LearningRate_def GaussNewton_init_def NewtonDescent_init_def NewtonDescent_call_def
  mv_def diag_solve_def omega_add_def omega_sub_def sum_squares_def line_search_fn_def
  RESULTS_where_def state0_def gn_example_def step_options_def exhausted_search_def Let_def

lemma example_search:
  "line_search_LearningRate diag_solve (line_search_fn shift_fn) (gn_line_search gn_example)
       [0] () (step_options shift_jvp gn_example shift_fn [0] () state0) True False
     = Inr \<lparr> sol_value = [3], sol_result = successful, sol_aux = [3],
             sol_state = \<lparr> next_init = 1 \<rparr> \<rparr>"
  by (simp add: example_defs)

lemma example_step:
  "step shift_jvp (line_search_LearningRate diag_solve) gn_example shift_fn [0] () Map.empty
       state0 ({} :: unit set)
     = Inr ([3], \<lparr> step_size = 1, diff = [3], f_val = 9, f_prev = 16, result = successful \<rparr>, [0])"
  by (simp add: example_defs)

subsection \<open>Rounding to a double, step by step\<close>





















subsection \<open>\<open>NewtonDescent.__call__\<close>\<close>

text \<open>
  C9. Calling \<open>NewtonDescent.__call__\<close> with an options mapping that lacks the key
  \<open>"vector"\<close> raises (the \<open>KeyError\<close> of the lookup), whatever the step size, the
  arguments, the linear solver and the other options are: no step and no status code
  is returned.
\<close>

theorem NewtonDescent_missing_vector_raises:
  assumes "options ''vector'' = None"
  shows "NewtonDescent_call linear_solve self stepsize args options = Inl (KeyError ''vector'')"
  using assms by (simp add: NewtonDescent_call_def)

theorem NewtonDescent_missing_vector_raises_witness:
  "([''operator'' \<mapsto> Operator (FunctionLinearOperator (\<lambda>t. t) 1)]
      :: (real, real list, unit) options) ''vector'' = None
   \<and> NewtonDescent_call diag_solve (gn_descent gn_example) 1 ()
         ([''operator'' \<mapsto> Operator (FunctionLinearOperator (\<lambda>t. t) 1)]
            :: (real, real list, unit) options)
       = Inl (KeyError ''vector'')"
proof -
  have h: "([''operator'' \<mapsto> Operator (FunctionLinearOperator (\<lambda>t. t) 1)]
              :: (real, real list, unit) options) ''vector'' = None"
    by simp
  show ?thesis
    using h NewtonDescent_missing_vector_raises
      [where options = "[''operator'' \<mapsto> Operator (FunctionLinearOperator (\<lambda>t. t) 1)]"
         and linear_solve = diag_solve and self = "gn_descent gn_example" and stepsize = 1
         and args = "()", OF h]
    by simp
qed

text \<open>
  C4. Calling \<open>NewtonDescent.__call__\<close> with a vector and with neither \<open>operator\<close> nor
  \<open>operator_inv\<close> available (each of the two keys missing, or bound to \<open>None\<close>) raises
  the \<open>ValueError\<close> of the source: an exception, not a status code, whatever the step
  size, the arguments and the vector are.
\<close>

theorem NewtonDescent_no_operator_raises:
  assumes "options ''vector'' = Some vector"
    and "options ''operator'' = None \<or> options ''operator'' = Some NoneV"
    and "options ''operator_inv'' = None \<or> options ''operator_inv'' = Some NoneV"
  shows "NewtonDescent_call linear_solve self stepsize args options =
           Inl (ValueError
             ''At least one of `operator` or `operator_inv` must be passed to `NewtonDescent` via `options`.'')"
  using assms by (auto simp add: NewtonDescent_call_def)

theorem NewtonDescent_no_operator_raises_witness:
  "([''vector'' \<mapsto> Array [1, 2], ''operator_inv'' \<mapsto> NoneV]
      :: (real, real list, unit) options) ''vector'' = Some (Array [1, 2])
   \<and> ([''vector'' \<mapsto> Array [1, 2], ''operator_inv'' \<mapsto> NoneV]
      :: (real, real list, unit) options) ''operator'' = None
   \<and> ([''vector'' \<mapsto> Array [1, 2], ''operator_inv'' \<mapsto> NoneV]
      :: (real, real list, unit) options) ''operator_inv'' = Some NoneV
   \<and> NewtonDescent_call diag_solve (gn_descent gn_example) 1 ()
         ([''vector'' \<mapsto> Array [1, 2], ''operator_inv'' \<mapsto> NoneV]
            :: (real, real list, unit) options)
       = Inl (ValueError
           ''At least one of `operator` or `operator_inv` must be passed to `NewtonDescent` via `options`.'')"
proof -
  let ?o = "[''vector'' \<mapsto> Array [1, 2], ''operator_inv'' \<mapsto> NoneV]
              :: (real, real list, unit) options"
  have v: "?o ''vector'' = Some (Array [1, 2])" by simp
  have a: "?o ''operator'' = None \<or> ?o ''operator'' = Some NoneV" by simp
  have b: "?o ''operator_inv'' = None \<or> ?o ''operator_inv'' = Some NoneV" by simp
  show ?thesis
    using NewtonDescent_no_operator_raises
      [where options = ?o and linear_solve = diag_solve and self = "gn_descent gn_example"
         and stepsize = 1 and args = "()", OF v a b]
    by simp
qed

text \<open>
  C8. With an \<open>operator_inv\<close> that is not \<open>None\<close>, \<open>NewtonDescent.__call__\<close> takes
  \<open>newton = operator_inv.mv(vector)\<close>, reports \<open>successful\<close>, and with no norm configured
  returns the step \<open>-step_size * newton\<close>. The linear solve plays no part: the result is
  the same for every \<open>linear_solve\<close>.
\<close>

theorem NewtonDescent_operator_inv:
  assumes "options ''vector'' = Some (Array v)"
    and "options ''operator_inv'' = Some (Operator Ainv)"
  shows "NewtonDescent_call linear_solve self stepsize args options =
           Inr (map (\<lambda>x. - stepsize * x)
                  (case nd_norm self of
                     None \<Rightarrow> mv Ainv v
                   | Some n \<Rightarrow> map (\<lambda>x. x / n (mv Ainv v)) (mv Ainv v)),
                successful)
         \<and> (nd_norm self = None \<longrightarrow>
              NewtonDescent_call linear_solve self stepsize args options =
                Inr (map (\<lambda>x. - stepsize * x) (mv Ainv v), successful))
         \<and> NewtonDescent_call linear_solve self stepsize args options =
             NewtonDescent_call linear_solve' self stepsize args options"
  using assms by (simp add: NewtonDescent_call_def Let_def split: option.splits)

theorem NewtonDescent_operator_inv_witness:
  "([''vector'' \<mapsto> Array [6, -8],
     ''operator_inv'' \<mapsto> Operator (FunctionLinearOperator (map (\<lambda>x. x / 2)) 2)]
      :: (real, real list, unit) options) ''vector''
     = Some (Array [6, -8])
   \<and> ([''vector'' \<mapsto> Array [6, -8],
     ''operator_inv'' \<mapsto> Operator (FunctionLinearOperator (map (\<lambda>x. x / 2)) 2)]
      :: (real, real list, unit) options) ''operator_inv''
     = Some (Operator (FunctionLinearOperator (map (\<lambda>x. x / 2)) 2))
   \<and> nd_norm (gn_descent gn_example) = None
   \<and> NewtonDescent_call diag_solve (gn_descent gn_example) 2 ()
         ([''vector'' \<mapsto> Array [6, -8],
           ''operator_inv'' \<mapsto> Operator (FunctionLinearOperator (map (\<lambda>x. x / 2)) 2)]
            :: (real, real list, unit) options)
       = Inr ([-6, 8], successful)"
proof -
  let ?A = "FunctionLinearOperator (map (\<lambda>x. x / 2)) 2 :: real linear_operator"
  let ?o = "[''vector'' \<mapsto> Array [6, -8], ''operator_inv'' \<mapsto> Operator ?A]
              :: (real, real list, unit) options"
  have v: "?o ''vector'' = Some (Array [6, -8])" by simp
  have a: "?o ''operator_inv'' = Some (Operator ?A)" by simp
  have n: "nd_norm (gn_descent gn_example) = None"
    by (simp add: gn_example_def GaussNewton_init_def NewtonDescent_init_def)
  show ?thesis
    using n v a NewtonDescent_operator_inv
      [where options = ?o and linear_solve = diag_solve and self = "gn_descent gn_example"
         and stepsize = 2 and args = "()" and linear_solve' = diag_solve, OF v a]
    by (simp add: mv_def)
qed




text \<open>
  C6. \<open>step\<close> hands the line search, and through it the descent, the dictionary
  \<open>step_options\<close>: it binds \<open>vector\<close> to the residual, \<open>operator\<close> to the operator built
  from the linearization of \<open>fn\<close> at \<open>y\<close>, and \<open>operator_inv\<close> to \<open>None\<close>. On that
  dictionary \<open>NewtonDescent.__call__\<close> solves with the operator (it does not raise the
  configuration error), for every step size; and in any options an \<open>operator_inv\<close>
  bound to \<open>None\<close> is treated as a missing key.
\<close>

theorem step_options_operator_only:
  "step jvp line_search self fn y args options state tags =
     (case line_search (line_search_fn fn) (gn_line_search self) y args
             (step_options jvp self fn y args state) True False of
        Inl e \<Rightarrow> Inl e
      | Inr line_sol \<Rightarrow>
          (case omega_sub (sol_value line_sol) y of
             Inl e \<Rightarrow> Inl e
           | Inr d \<Rightarrow>
               Inr (sol_value line_sol,
                    \<lparr> step_size = next_init (sol_state line_sol),
                      diff = d,
                      f_val = sum_squares (fst (fn y args)),
                      f_prev = f_val state,
                      result = RESULTS_where (sol_result line_sol = nonlinear_max_steps_reached)
                                 successful (sol_result line_sol) \<rparr>,
                    snd (fn y args))))
   \<and> step_options jvp self fn y args state ''vector''
       = Some (Array (fst (linearize jvp (\<lambda>y'. fn y' args) y)))
   \<and> step_options jvp self fn y args state ''operator''
       = Some (Operator (FunctionLinearOperator
                 (fst (snd (linearize jvp (\<lambda>y'. fn y' args) y))) (length y)))
   \<and> step_options jvp self fn y args state ''operator_inv'' = Some NoneV
   \<and> step_options jvp self fn y args state ''descent'' = Some (DescentV (gn_descent self))
   \<and> NewtonDescent_call linear_solve d stepsize args' (step_options jvp self fn y args state) =
       (let out = linear_solve
                    (FunctionLinearOperator
                       (fst (snd (linearize jvp (\<lambda>y'. fn y' args) y))) (length y))
                    (fst (linearize jvp (\<lambda>y'. fn y' args) y)) (nd_linear_solver d);
            newton = fst out
        in Inr (map (\<lambda>x. - stepsize * x)
                  (case nd_norm d of
                     None \<Rightarrow> newton
                   | Some n \<Rightarrow> map (\<lambda>x. x / n newton) newton),
                RESULTS_promote (snd out)))
   \<and> (opts ''operator_inv'' = Some NoneV \<longrightarrow>
        NewtonDescent_call linear_solve d stepsize args' opts =
        NewtonDescent_call linear_solve d stepsize args' (opts(''operator_inv'' := None)))"
proof -
  have entries:
    "step_options jvp self fn y args state ''vector''
       = Some (Array (fst (linearize jvp (\<lambda>y'. fn y' args) y)))"
    "step_options jvp self fn y args state ''operator''
       = Some (Operator (FunctionLinearOperator
                 (fst (snd (linearize jvp (\<lambda>y'. fn y' args) y))) (length y)))"
    "step_options jvp self fn y args state ''operator_inv'' = Some NoneV"
    "step_options jvp self fn y args state ''descent'' = Some (DescentV (gn_descent self))"
    by (simp_all add: step_options_def line_search_options_def linearize_def split: prod.splits)
  have call: "NewtonDescent_call linear_solve d stepsize args'
                (step_options jvp self fn y args state) =
       (let out = linear_solve
                    (FunctionLinearOperator
                       (fst (snd (linearize jvp (\<lambda>y'. fn y' args) y))) (length y))
                    (fst (linearize jvp (\<lambda>y'. fn y' args) y)) (nd_linear_solver d);
            newton = fst out
        in Inr (map (\<lambda>x. - stepsize * x)
                  (case nd_norm d of
                     None \<Rightarrow> newton
                   | Some n \<Rightarrow> map (\<lambda>x. x / n newton) newton),
                RESULTS_promote (snd out)))"
    by (simp add: NewtonDescent_call_def entries Let_def split: option.splits)
  have absent: "opts ''operator_inv'' = Some NoneV \<longrightarrow>
        NewtonDescent_call linear_solve d stepsize args' opts =
        NewtonDescent_call linear_solve d stepsize args' (opts(''operator_inv'' := None))"
    by (simp add: NewtonDescent_call_def Let_def split: option.splits sum.splits)
  show ?thesis
    using step_unfold [of jvp line_search self fn y args options state tags] entries call absent
    by (intro conjI)
qed

theorem step_options_operator_only_witness:
  "([''vector'' \<mapsto> Array [-3], ''operator_inv'' \<mapsto> NoneV,
     ''operator'' \<mapsto> Operator (FunctionLinearOperator (\<lambda>t. t) 1)]
      :: (real, real list, unit) options) ''operator_inv''
     = Some NoneV
   \<and> step_options shift_jvp gn_example shift_fn [0] () state0 ''vector'' = Some (Array [-3])
   \<and> step_options shift_jvp gn_example shift_fn [0] () state0 ''operator''
       = Some (Operator (FunctionLinearOperator (\<lambda>t. t) 1))
   \<and> step_options shift_jvp gn_example shift_fn [0] () state0 ''operator_inv'' = Some NoneV
   \<and> NewtonDescent_call diag_solve (gn_descent gn_example) 1 ()
       (step_options shift_jvp gn_example shift_fn [0] () state0)
     = Inr ([3], successful)
   \<and> NewtonDescent_call diag_solve (gn_descent gn_example) 1 ()
       ([''vector'' \<mapsto> Array [-3], ''operator_inv'' \<mapsto> NoneV,
         ''operator'' \<mapsto> Operator (FunctionLinearOperator (\<lambda>t. t) 1)]
          :: (real, real list, unit) options)
     = NewtonDescent_call diag_solve (gn_descent gn_example) 1 ()
       ([''vector'' \<mapsto> Array [-3], ''operator'' \<mapsto> Operator (FunctionLinearOperator (\<lambda>t. t) 1)]
          :: (real, real list, unit) options)"
proof -
  let ?A = "FunctionLinearOperator (\<lambda>t. t) 1 :: real linear_operator"
  let ?o = "[''vector'' \<mapsto> Array [-3], ''operator_inv'' \<mapsto> NoneV,
             ''operator'' \<mapsto> Operator ?A] :: (real, real list, unit) options"
  have h: "?o ''operator_inv'' = Some NoneV" by simp
  have r: "?o(''operator_inv'' := None) = [''vector'' \<mapsto> Array [-3], ''operator'' \<mapsto> Operator ?A]"
    by (rule ext) simp
  have n: "nd_norm (gn_descent gn_example) = None"
    by (simp add: gn_example_def GaussNewton_init_def NewtonDescent_init_def)
  have l: "linearize shift_jvp (\<lambda>y'. shift_fn y' ()) [0] = ([-3], (\<lambda>t. t), [0])"
    by (simp add: linearize_def shift_fn_def shift_jvp_def)
  show ?thesis
    using h step_options_operator_only
      [where jvp = shift_jvp and self = gn_example and fn = shift_fn and y = "[0]"
         and args = "()" and state = state0 and linear_solve = diag_solve
         and d = "gn_descent gn_example" and stepsize = 1 and args' = "()" and opts = ?o
         and line_search = "line_search_LearningRate diag_solve" and options = Map.empty
         and tags = "{} :: unit set"]
    by (simp add: n r l Let_def diag_solve_def mv_def)
qed

subsection \<open>\<open>AbstractGaussNewton.init\<close>\<close>

text \<open>
  C5. \<open>init\<close> returns the state with \<open>step_size = 1\<close>, \<open>diff\<close> of the shape of \<open>y\<close> with
  every leaf \<open>+infinity\<close>, \<open>f_val = f_prev = +infinity\<close> and \<open>result = successful\<close>. The
  state is the same for every \<open>fn\<close>, \<open>args\<close>, \<open>options\<close>, \<open>f_struct\<close>, \<open>aux_struct\<close> and
  \<open>tags\<close>: \<open>fn\<close> is not evaluated.
\<close>

theorem init_allocates:
  "init jnp_inf self fn y args options f_struct aux_struct tags =
     \<lparr> step_size = 1, diff = replicate (length y) jnp_inf, f_val = jnp_inf, f_prev = jnp_inf,
       result = successful \<rparr>
   \<and> init jnp_inf self fn y args options f_struct aux_struct tags =
     init jnp_inf self' fn' y args' options' f_struct' aux_struct' tags'"
  by (simp add: init_def tree_full_like_def map_replicate_const)

subsection \<open>\<open>AbstractGaussNewton.step\<close>\<close>

text \<open>
  C1, as amended. The auxiliary output that \<open>step\<close> returns as its third component is
  the one of the initial linearization of \<open>fn\<close> at \<open>y\<close>, that is the auxiliary output of
  \<open>fn(y, args)\<close>, whatever the line search is and whatever auxiliary output it returns.
\<close>

theorem step_aux_is_linearization_aux:
  assumes "step jvp line_search self fn y args options state tags = Inr (new_y, new_state, aux)"
  shows "aux = snd (snd (linearize jvp (\<lambda>y'. fn y' args) y)) \<and> aux = snd (fn y args)"
  using step_returns [OF assms] by (auto simp add: linearize_def split: prod.splits)

theorem step_aux_is_linearization_aux_witness:
  "step shift_jvp (line_search_LearningRate diag_solve) gn_example shift_fn [0] () Map.empty
       state0 ({} :: unit set)
     = Inr ([3], \<lparr> step_size = 1, diff = [3], f_val = 9, f_prev = 16, result = successful \<rparr>, [0])
   \<and> [0] = snd (snd (linearize shift_jvp (\<lambda>y'. shift_fn y' ()) [0]))
   \<and> [0] = snd (shift_fn [0] ())"
  using example_step step_aux_is_linearization_aux [OF example_step] by simp

text \<open>
  C1, as stated, fails: on the scalar problem with residual \<open>y - 3\<close> and auxiliary output
  \<open>y\<close>, started at \<open>y = 0\<close>, the fixed-step line search accepts the point \<open>3\<close> and
  returns the auxiliary output \<open>[3]\<close> of that evaluation, while \<open>step\<close> returns \<open>[0]\<close>.
\<close>

theorem step_aux_not_line_search_aux:
  "line_search_LearningRate diag_solve (line_search_fn shift_fn) (gn_line_search gn_example)
       [0] () (step_options shift_jvp gn_example shift_fn [0] () state0) True False
     = Inr \<lparr> sol_value = [3], sol_result = successful, sol_aux = [3],
             sol_state = \<lparr> next_init = 1 \<rparr> \<rparr>
   \<and> step shift_jvp (line_search_LearningRate diag_solve) gn_example shift_fn [0] () Map.empty
       state0 ({} :: unit set)
     = Inr ([3], \<lparr> step_size = 1, diff = [3], f_val = 9, f_prev = 16, result = successful \<rparr>, [0])
   \<and> snd (snd (projr (step shift_jvp (line_search_LearningRate diag_solve) gn_example shift_fn
                         [0] () Map.empty state0 ({} :: unit set))))
     \<noteq> sol_aux (projr (line_search_LearningRate diag_solve (line_search_fn shift_fn)
                         (gn_line_search gn_example) [0] ()
                         (step_options shift_jvp gn_example shift_fn [0] () state0) True False))"
  by (simp add: example_search example_step)

text \<open>
  C2. When the line search returns with status \<open>s\<close>, \<open>step\<close> stores \<open>successful\<close> in
  \<open>new_state.result\<close> if \<open>s\<close> is \<open>nonlinear_max_steps_reached\<close>, and \<open>s\<close> itself for every
  other status, the linear-solve failures among them.
\<close>

theorem step_result_downgrade:
  assumes "line_search (line_search_fn fn) (gn_line_search self) y args
             (step_options jvp self fn y args state) True False = Inr line_sol"
    and "length (sol_value line_sol) = length y"
    and "sol_result line_sol = s"
  shows "\<exists>new_y new_state aux.
           step jvp line_search self fn y args options state tags = Inr (new_y, new_state, aux)
         \<and> result new_state = (if s = nonlinear_max_steps_reached then successful else s)"
  using step_accepts [where line_search = line_search and options = options and tags = tags,
      OF assms(1,2)] assms(3)
  by simp

theorem step_result_downgrade_witness:
  "exhausted_search (line_search_fn shift_fn) (gn_line_search gn_example) [0] ()
       (step_options shift_jvp gn_example shift_fn [0] () state0) True False
     = Inr \<lparr> sol_value = [0], sol_result = nonlinear_max_steps_reached, sol_aux = [0],
             sol_state = \<lparr> next_init = 1 / 2 \<rparr> \<rparr>
   \<and> (\<exists>new_y new_state aux.
         step shift_jvp exhausted_search gn_example shift_fn [0] () Map.empty state0
             ({} :: unit set) = Inr (new_y, new_state, aux)
       \<and> result new_state = successful)"
proof -
  have h: "exhausted_search (line_search_fn shift_fn) (gn_line_search gn_example) [0] ()
       (step_options shift_jvp gn_example shift_fn [0] () state0) True False
     = Inr \<lparr> sol_value = [0], sol_result = nonlinear_max_steps_reached, sol_aux = [0],
             sol_state = \<lparr> next_init = 1 / 2 \<rparr> \<rparr>"
    by (simp add: exhausted_search_def line_search_fn_def shift_fn_def)
  show ?thesis
    using h step_result_downgrade [where line_search = exhausted_search
        and s = nonlinear_max_steps_reached and options = Map.empty and tags = "{} :: unit set",
        OF h]
    by simp
qed

text \<open>
  C7. The new state that \<open>step\<close> builds has \<open>step_size\<close> equal to the line search's
  \<open>state.next_init\<close>, \<open>diff\<close> equal to \<open>new_y - y\<close> leaf by leaf, \<open>f_val\<close> equal to the sum
  of the squared residuals of \<open>fn\<close> at \<open>y\<close>, \<open>f_prev\<close> equal to the \<open>f_val\<close> of the incoming
  state, and \<open>result\<close> equal to the status of the line search after \<open>RESULTS.where\<close>.
\<close>

theorem step_new_state:
  assumes "line_search (line_search_fn fn) (gn_line_search self) y args
             (step_options jvp self fn y args state) True False = Inr line_sol"
    and "length (sol_value line_sol) = length y"
  shows "\<exists>new_state aux.
           step jvp line_search self fn y args options state tags
             = Inr (sol_value line_sol, new_state, aux)
         \<and> step_size new_state = next_init (sol_state line_sol)
         \<and> diff new_state = map2 (\<lambda>a b. a - b) (sol_value line_sol) y
         \<and> f_val new_state = sum_squares (fst (fn y args))
         \<and> f_prev new_state = f_val state
         \<and> result new_state = RESULTS_where (sol_result line_sol = nonlinear_max_steps_reached)
                                 successful (sol_result line_sol)"
  using step_accepts [where line_search = line_search and options = options and tags = tags,
      OF assms]
  by (simp add: RESULTS_where_def)

theorem step_new_state_witness:
  "line_search_LearningRate diag_solve (line_search_fn shift_fn) (gn_line_search gn_example)
       [0] () (step_options shift_jvp gn_example shift_fn [0] () state0) True False
     = Inr \<lparr> sol_value = [3], sol_result = successful, sol_aux = [3],
             sol_state = \<lparr> next_init = 1 \<rparr> \<rparr>
   \<and> (\<exists>new_state aux.
         step shift_jvp (line_search_LearningRate diag_solve) gn_example shift_fn [0] () Map.empty
             state0 ({} :: unit set) = Inr ([3], new_state, aux)
       \<and> step_size new_state = 1 \<and> diff new_state = [3] \<and> f_val new_state = 9
       \<and> f_prev new_state = 16 \<and> result new_state = successful)"
  using example_search
    step_new_state [where line_search = "line_search_LearningRate diag_solve"
      and options = Map.empty and tags = "{} :: unit set", OF example_search]
  by (simp add: shift_fn_def sum_squares_def state0_def RESULTS_where_def)

subsection \<open>\<open>GaussNewton.__init__\<close>\<close>

text \<open>
  C10. \<open>GaussNewton(rtol, atol)\<close>, with or without a \<open>linear_solver\<close> argument, has
  \<open>max_norm\<close> as its norm, a \<open>NewtonDescent\<close> with the linear solver of the caller (the
  default \<open>AutoLinearSolver(well_posed=None)\<close> when there is none) and with no norm as
  its descent, and \<open>LearningRate(1.0)\<close> as its line search.
\<close>

theorem GaussNewton_init_fields:
  "GaussNewton_init rtol atol None linear_solver_arg =
     \<lparr> gn_rtol = rtol, gn_atol = atol, gn_norm = max_norm,
       gn_descent = \<lparr> nd_norm = None,
                      nd_linear_solver = (case linear_solver_arg of
                                            None \<Rightarrow> AutoLinearSolver None
                                          | Some s \<Rightarrow> s) \<rparr>,
       gn_line_search = LearningRate 1 \<rparr>
   \<and> gn_descent (GaussNewton_init rtol atol norm_arg (Some linear_solver)) =
       \<lparr> nd_norm = None, nd_linear_solver = linear_solver \<rparr>
   \<and> gn_line_search (GaussNewton_init rtol atol norm_arg linear_solver_arg) = LearningRate 1"
  by (simp add: GaussNewton_init_def NewtonDescent_init_def split: option.splits)

end
